theory Spec2Isabelle
  imports Complex_Main
begin

section \<open>Python values\<close>

text \<open>
  A Python \<^verbatim>\<open>str\<close> is a sequence of Unicode code points; the message template of
  \<^verbatim>\<open>homework.py\<close> contains Cyrillic letters, so a string is modelled as the list of its
  code points. \<open>ascii\<close> embeds an ASCII literal.

  Python's \<^verbatim>\<open>float\<close> is modelled by \<open>real\<close>, and Python's \<^verbatim>\<open>int\<close> by \<open>int\<close>. Division
  by zero raises, as in the source language. Arithmetic is exact, so that rounding error
  is outside the model, in every method but one: \<^verbatim>\<open>SportsWalking.get_spent_calories\<close> takes
  the floor of a quotient, which a rounding error in the last place can move by a whole
  unit, and is therefore modelled in double precision, each operation followed by the
  rounding \<open>binary64\<close> below. Overflow, infinities and NaN are outside the model
  throughout.
\<close>

type_synonym pystr = "nat list"

definition ascii :: "string \<Rightarrow> pystr" where
  "ascii s = map of_char s"

datatype py_error =
    TypeError_too_many nat nat
      \<comment> \<open>"takes \<open>n\<close> positional arguments but \<open>m\<close> were given" (both counts include \<open>self\<close>)\<close>
  | TypeError_missing "string list"
      \<comment> \<open>"missing \<open>k\<close> required positional arguments", with the names of the missing ones\<close>
  | NotImplementedError
  | ZeroDivisionError
  | ValueError
  | KeyError pystr
  | Unmodelled
      \<comment> \<open>a use of \<^verbatim>\<open>str.format\<close> outside the fragment modelled below\<close>


definition truediv :: "real \<Rightarrow> real \<Rightarrow> py_error + real" where
  "truediv a b = (if b = 0 then Inl ZeroDivisionError else Inr (a / b))"

subsection \<open>Double precision\<close>

text \<open>
  Rounding to the nearest integer, a tie going to the even neighbour.
\<close>

definition round_half_even :: "real \<Rightarrow> int" where
  "round_half_even y =
     (let f = \<lfloor>y\<rfloor>; r = y - of_int f in
      if r < 1 / 2 then f else if 1 / 2 < r then f + 1 else if even f then f else f + 1)"

text \<open>
  Rounding to the nearest number of the format binary64 of IEEE 754, a tie going to the
  even significand. A number \<open>x\<close> with \<open>2 powi e \<le> \<bar>x\<bar> < 2 powi (e + 1)\<close> is rounded to a
  multiple of \<open>2 powi (e - 52)\<close>. The exponent \<open>e\<close> is at least \<open>-1022\<close>: smaller numbers are
  subnormal and keep the spacing \<open>2 powi (-1074)\<close>. A magnitude of \<open>2 powi 1024\<close> or more has
  no finite double and is outside the model.
\<close>

definition exponent64 :: "real \<Rightarrow> int" where
  "exponent64 x =
     (case find (\<lambda>e. \<bar>x\<bar> < 2 powi (e + 1)) [- 1022..1023] of
        Some e \<Rightarrow> e
      | None \<Rightarrow> 1023)"

definition binary64 :: "real \<Rightarrow> real" where
  "binary64 x =
     (let u = 2 powi (exponent64 x - 52) in of_int (round_half_even (x / u)) * u)"

text \<open>
  The operations on doubles that \<^verbatim>\<open>SportsWalking.get_spent_calories\<close> uses: \<^verbatim>\<open>*\<close>, \<^verbatim>\<open>+\<close>,
  \<^verbatim>\<open>/\<close>, \<^verbatim>\<open>** 2\<close> and \<^verbatim>\<open>//\<close>. Each returns the exact result rounded; the floor division
  returns the floor of the exact quotient of its two operands.
\<close>

definition fl_mul :: "real \<Rightarrow> real \<Rightarrow> real" where
  "fl_mul x y = binary64 (x * y)"

definition fl_add :: "real \<Rightarrow> real \<Rightarrow> real" where
  "fl_add x y = binary64 (x + y)"

definition fl_truediv :: "real \<Rightarrow> real \<Rightarrow> py_error + real" where
  "fl_truediv x y = (if y = 0 then Inl ZeroDivisionError else Inr (binary64 (x / y)))"

definition fl_pow2 :: "real \<Rightarrow> real" where
  "fl_pow2 x = binary64 (x * x)"

definition fl_floordiv :: "real \<Rightarrow> real \<Rightarrow> py_error + real" where
  "fl_floordiv x y =
     (if y = 0 then Inl ZeroDivisionError else Inr (binary64 (of_int \<lfloor>x / y\<rfloor>)))"

section \<open>InfoMessage\<close>

text \<open>
  The dataclass has six fields: \<^verbatim>\<open>MESSAGE\<close> carries a type annotation, so it is a field
  with a default value and not only a class constant.
\<close>

record InfoMessage =
  training_type :: pystr
  info_duration :: real  \<comment> \<open>the field \<^verbatim>\<open>duration\<close>\<close>
  distance :: real
  speed :: real
  calories :: real
  MESSAGE :: pystr

subsection \<open>Formatting\<close>

text \<open>
  \<^verbatim>\<open>get_message\<close> is \<^verbatim>\<open>self.MESSAGE.format(**asdict(self))\<close>. The model of
  \<^verbatim>\<open>str.format\<close> covers literal text, the escapes \<^verbatim>\<open>{{\<close> and \<^verbatim>\<open>}}\<close>, and
  replacement fields \<^verbatim>\<open>{name}\<close> and \<^verbatim>\<open>{name:.Nf}\<close> looked up among the keyword
  arguments; every other form yields \<open>Unmodelled\<close>.
\<close>

datatype pyval = PStr pystr | PFloat real

text \<open>
  The presentation type \<^verbatim>\<open>f\<close> with precision \<open>p\<close>: the value is rounded to \<open>p\<close> decimal
  places, a tie going to the even neighbour, and written as an optional minus sign, the
  integer digits, and (for \<open>p > 0\<close>) a point followed by exactly \<open>p\<close> digits. The sign is
  that of the value before rounding, so a small negative number prints as \<^verbatim>\<open>-0.000\<close>.
\<close>

fun dec_digits :: "nat \<Rightarrow> pystr" where
  "dec_digits n = (if n < 10 then [48 + n] else dec_digits (n div 10) @ [48 + n mod 10])"

declare dec_digits.simps [simp del]

definition zero_pad :: "nat \<Rightarrow> pystr \<Rightarrow> pystr" where
  "zero_pad n s = replicate (n - length s) 48 @ s"

definition format_f :: "nat \<Rightarrow> real \<Rightarrow> pystr" where
  "format_f p x =
     (let q = nat (round_half_even (\<bar>x\<bar> * 10 ^ p)) in
      (if x < 0 then [45] else []) @ dec_digits (q div 10 ^ p)
      @ (if p = 0 then [] else 46 # zero_pad p (dec_digits (q mod 10 ^ p))))"

text \<open>A format specification of the form \<^verbatim>\<open>.Nf\<close> and a replacement field \<^verbatim>\<open>name[:spec]\<close>.\<close>

definition is_digit :: "nat \<Rightarrow> bool" where
  "is_digit c = (48 \<le> c \<and> c \<le> 57)"

definition is_name_char :: "nat \<Rightarrow> bool" where
  "is_name_char c = (is_digit c \<or> (65 \<le> c \<and> c \<le> 90) \<or> c = 95 \<or> (97 \<le> c \<and> c \<le> 122))"

definition digits_value :: "pystr \<Rightarrow> nat" where
  "digits_value ds = foldl (\<lambda>n c. 10 * n + (c - 48)) 0 ds"

definition precision_f :: "pystr \<Rightarrow> nat option" where
  "precision_f spec =
     (case spec of
        [] \<Rightarrow> None
      | c # cs \<Rightarrow>
          if c = 46 \<and> cs \<noteq> [] \<and> last cs = 102 \<and> butlast cs \<noteq> [] \<and> list_all is_digit (butlast cs)
          then Some (digits_value (butlast cs)) else None)"

fun format_value :: "pyval \<Rightarrow> pystr \<Rightarrow> py_error + pystr" where
  "format_value (PStr s) spec =
     (if spec = [] then Inr s
      else case precision_f spec of Some p \<Rightarrow> Inl ValueError | None \<Rightarrow> Inl Unmodelled)"
| "format_value (PFloat x) spec =
     (case precision_f spec of Some p \<Rightarrow> Inr (format_f p x) | None \<Rightarrow> Inl Unmodelled)"

definition format_field :: "pystr \<Rightarrow> (pystr \<rightharpoonup> pyval) \<Rightarrow> py_error + pystr" where
  "format_field f kwargs =
     (let name = takeWhile (\<lambda>c. c \<noteq> 58) f; spec = drop (Suc (length name)) f in
      if name = [] \<or> \<not> list_all is_name_char name \<or> is_digit (hd name) then Inl Unmodelled
      else case kwargs name of
             None \<Rightarrow> Inl (KeyError name)
           | Some v \<Rightarrow> format_value v spec)"

text \<open>
  The template is scanned from left to right; the first argument of \<open>format_go\<close> is
  \<open>None\<close> in literal text and \<open>Some f\<close> inside a replacement field of which \<open>f\<close> has been
  read. An unmatched brace raises \<^verbatim>\<open>ValueError\<close>, a name that is not among the keyword
  arguments \<^verbatim>\<open>KeyError\<close>; the first error met ends the scan.
\<close>

fun prepend :: "pystr \<Rightarrow> py_error + pystr \<Rightarrow> py_error + pystr" where
  "prepend s (Inl e) = Inl e"
| "prepend s (Inr r) = Inr (s @ r)"

fun format_go :: "pystr option \<Rightarrow> pystr \<Rightarrow> (pystr \<rightharpoonup> pyval) \<Rightarrow> py_error + pystr" where
  "format_go None [] kwargs = Inr []"
| "format_go None (c # cs) kwargs =
     (if c = 123 then
        (case cs of
           [] \<Rightarrow> Inl ValueError
         | d # ds \<Rightarrow>
             if d = 123 then prepend [123] (format_go None ds kwargs)
             else format_go (Some []) cs kwargs)
      else if c = 125 then
        (case cs of
           [] \<Rightarrow> Inl ValueError
         | d # ds \<Rightarrow>
             if d = 125 then prepend [125] (format_go None ds kwargs)
             else Inl ValueError)
      else prepend [c] (format_go None cs kwargs))"
| "format_go (Some f) [] kwargs = Inl ValueError"
| "format_go (Some f) (c # cs) kwargs =
     (if c = 125 then
        (case format_field f kwargs of
           Inl e \<Rightarrow> Inl e
         | Inr s \<Rightarrow> prepend s (format_go None cs kwargs))
      else if c = 123 then Inl Unmodelled
      else format_go (Some (f @ [c])) cs kwargs)"

definition str_format :: "pystr \<Rightarrow> (pystr \<rightharpoonup> pyval) \<Rightarrow> py_error + pystr" where
  "str_format template kwargs = format_go None template kwargs"

text \<open>
  A code point other than a brace; a run of them is literal text, or a field's content.
\<close>

definition plain :: "nat \<Rightarrow> bool" where
  "plain c = (c \<noteq> 123 \<and> c \<noteq> 125)"

text \<open>
  The default of the field \<^verbatim>\<open>MESSAGE\<close>. The words of the template are Russian; their
  letters are given by code point. In Latin transliteration the template reads
  \<^verbatim>\<open>Tip trenirovki: {training_type}; Dlitel'nost': {duration:.3f} ch.; \<close>
  \<^verbatim>\<open>Distantsiya: {distance:.3f} km; Sr. skorost': {speed:.3f} km/ch; \<close>
  \<^verbatim>\<open>Potracheno kkal: {calories:.3f}.\<close>
\<close>

definition MESSAGE_default :: pystr where
  "MESSAGE_default =
     [1058, 1080, 1087] @ ascii '' '' @ [1090, 1088, 1077, 1085, 1080, 1088, 1086, 1074, 1082, 1080]
       @ ascii '': {training_type}; ''
     @ [1044, 1083, 1080, 1090, 1077, 1083, 1100, 1085, 1086, 1089, 1090, 1100]
       @ ascii '': {duration:.3f} '' @ [1095] @ ascii ''.; ''
     @ [1044, 1080, 1089, 1090, 1072, 1085, 1094, 1080, 1103]
       @ ascii '': {distance:.3f} '' @ [1082, 1084] @ ascii ''; ''
     @ [1057, 1088] @ ascii ''. '' @ [1089, 1082, 1086, 1088, 1086, 1089, 1090, 1100]
       @ ascii '': {speed:.3f} '' @ [1082, 1084] @ ascii ''/'' @ [1095] @ ascii ''; ''
     @ [1055, 1086, 1090, 1088, 1072, 1095, 1077, 1085, 1086] @ ascii '' ''
       @ [1082, 1082, 1072, 1083] @ ascii '': {calories:.3f}.''"

definition asdict :: "InfoMessage \<Rightarrow> (pystr \<rightharpoonup> pyval)" where
  "asdict self =
     map_of [(ascii ''training_type'', PStr (training_type self)),
             (ascii ''duration'', PFloat (info_duration self)),
             (ascii ''distance'', PFloat (distance self)),
             (ascii ''speed'', PFloat (speed self)),
             (ascii ''calories'', PFloat (calories self)),
             (ascii ''MESSAGE'', PStr (MESSAGE self))]"

definition get_message :: "InfoMessage \<Rightarrow> py_error + pystr" where
  "get_message self = str_format (MESSAGE self) (asdict self)"

section \<open>Training and its subclasses\<close>

text \<open>
  An instance is its class together with the attributes the constructor of that class
  sets. The base class can be instantiated, so it is a constructor too.
\<close>

datatype training =
    Training (action: int) (duration: real) (weight: real)
  | Running (action: int) (duration: real) (weight: real)
  | SportsWalking (action: int) (duration: real) (weight: real) (height: real)
  | Swimming (action: int) (duration: real) (weight: real) (length_pool: int) (count_pool: int)

definition M_IN_KM :: real where
  "M_IN_KM = 1000"

definition MINUTES_IN_HOUR :: real where
  "MINUTES_IN_HOUR = 60"

text \<open>\<^verbatim>\<open>self.LEN_STEP\<close>: \<^verbatim>\<open>Swimming\<close> overrides the class attribute, the others inherit it.\<close>

fun LEN_STEP :: "training \<Rightarrow> real" where
  "LEN_STEP (Swimming _ _ _ _ _) = 138 / 100"
| "LEN_STEP _ = 65 / 100"

definition COEFF_CALORIE_FOR_RUN_1 :: real where
  "COEFF_CALORIE_FOR_RUN_1 = 18"

definition COEFF_CALORIE_FOR_RUN_2 :: real where
  "COEFF_CALORIE_FOR_RUN_2 = 20"

definition COEFF_CALORIE_FOR_WALK_1 :: real where
  "COEFF_CALORIE_FOR_WALK_1 = 35 / 1000"

definition COEFF_CALORIE_FOR_WALK_2 :: real where
  "COEFF_CALORIE_FOR_WALK_2 = 29 / 1000"

definition COEFF_CALORIE_FOR_SWIM_1 :: real where
  "COEFF_CALORIE_FOR_SWIM_1 = 11 / 10"

definition COEFF_CALORIE_FOR_SWIM_2 :: real where
  "COEFF_CALORIE_FOR_SWIM_2 = 2"

text \<open>\<^verbatim>\<open>self.__class__.__name__\<close>\<close>

fun class_name :: "training \<Rightarrow> pystr" where
  "class_name (Training _ _ _) = ascii ''Training''"
| "class_name (Running _ _ _) = ascii ''Running''"
| "class_name (SportsWalking _ _ _ _) = ascii ''SportsWalking''"
| "class_name (Swimming _ _ _ _ _) = ascii ''Swimming''"

subsection \<open>Methods\<close>

text \<open>
  A method receives the instance and may assign to its attributes, so a call is modelled
  as a function from the instance to the outcome (the returned value, or the exception
  raised) paired with the instance as the call leaves it.
\<close>

type_synonym 'a outcome = "(py_error + 'a) \<times> training"

definition get_distance :: "training \<Rightarrow> real outcome" where
  "get_distance self = (Inr (of_int (action self) * LEN_STEP self / M_IN_KM), self)"

definition Training_get_mean_speed :: "training \<Rightarrow> real outcome" where
  "Training_get_mean_speed self =
     (truediv (of_int (action self) * LEN_STEP self / M_IN_KM) (duration self), self)"

definition Swimming_get_mean_speed :: "training \<Rightarrow> real outcome" where
  "Swimming_get_mean_speed self =
     (truediv (of_int (length_pool self * count_pool self) / M_IN_KM) (duration self), self)"

text \<open>Method resolution: only \<^verbatim>\<open>Swimming\<close> overrides \<^verbatim>\<open>get_mean_speed\<close>.\<close>

fun get_mean_speed :: "training \<Rightarrow> real outcome" where
  "get_mean_speed (Swimming a d w lp cp) = Swimming_get_mean_speed (Swimming a d w lp cp)"
| "get_mean_speed self = Training_get_mean_speed self"

definition Training_get_spent_calories :: "training \<Rightarrow> real outcome" where
  "Training_get_spent_calories self = (Inl NotImplementedError, self)"

text \<open>
  The operands are evaluated left to right: the call of \<^verbatim>\<open>get_mean_speed\<close> comes before
  the reads of \<^verbatim>\<open>self.weight\<close> and \<^verbatim>\<open>self.duration\<close>, which therefore see the instance
  as the call left it.
\<close>

definition Running_get_spent_calories :: "training \<Rightarrow> real outcome" where
  "Running_get_spent_calories self =
     (case get_mean_speed self of
        (Inl e, s1) \<Rightarrow> (Inl e, s1)
      | (Inr v, s1) \<Rightarrow>
          (Inr ((COEFF_CALORIE_FOR_RUN_1 * v - COEFF_CALORIE_FOR_RUN_2) * weight s1
                / M_IN_KM * (duration s1 * MINUTES_IN_HOUR)), s1))"

text \<open>
  \<^verbatim>\<open>SportsWalking.get_spent_calories\<close>, in double precision. For an instance of
  \<^verbatim>\<open>SportsWalking\<close> the call \<^verbatim>\<open>self.get_mean_speed()\<close> is the method inherited from
  \<^verbatim>\<open>Training\<close>; \<open>Training_get_mean_speed_double\<close> is that method with the rounding of each
  operation. The integers \<^verbatim>\<open>self.action\<close>, \<^verbatim>\<open>M_IN_KM\<close> and \<^verbatim>\<open>MINUTES_IN_HOUR\<close> are converted
  to doubles where they meet a double, and the literals \<^verbatim>\<open>0.65\<close>, \<^verbatim>\<open>0.035\<close> and \<^verbatim>\<open>0.029\<close> are
  the doubles nearest to them; the attributes \<^verbatim>\<open>duration\<close>, \<^verbatim>\<open>weight\<close> and \<^verbatim>\<open>height\<close> are
  taken to hold doubles.
\<close>

definition Training_get_mean_speed_double :: "training \<Rightarrow> real outcome" where
  "Training_get_mean_speed_double self =
     (case fl_truediv (fl_mul (binary64 (of_int (action self))) (binary64 (LEN_STEP self)))
             (binary64 M_IN_KM) of
        Inl e \<Rightarrow> (Inl e, self)
      | Inr km \<Rightarrow> (fl_truediv km (duration self), self))"

text \<open>
  Here \<^verbatim>\<open>COEFF_CALORIE_FOR_WALK_1 * self.weight\<close> is evaluated before the call, the
  floor division by \<^verbatim>\<open>self.height\<close> and the remaining reads after it.
\<close>

definition SportsWalking_get_spent_calories :: "training \<Rightarrow> real outcome" where
  "SportsWalking_get_spent_calories self =
     (let t = fl_mul (binary64 COEFF_CALORIE_FOR_WALK_1) (weight self) in
      case Training_get_mean_speed_double self of
        (Inl e, s1) \<Rightarrow> (Inl e, s1)
      | (Inr v, s1) \<Rightarrow>
          (case fl_floordiv (fl_pow2 v) (height s1) of
             Inl e \<Rightarrow> (Inl e, s1)
           | Inr q \<Rightarrow>
               (Inr (fl_mul
                       (fl_add t (fl_mul (fl_mul q (binary64 COEFF_CALORIE_FOR_WALK_2)) (weight s1)))
                       (fl_mul (duration s1) (binary64 MINUTES_IN_HOUR))), s1)))"

definition Swimming_get_spent_calories :: "training \<Rightarrow> real outcome" where
  "Swimming_get_spent_calories self =
     (case get_mean_speed self of
        (Inl e, s1) \<Rightarrow> (Inl e, s1)
      | (Inr v, s1) \<Rightarrow>
          (Inr ((v + COEFF_CALORIE_FOR_SWIM_1) * COEFF_CALORIE_FOR_SWIM_2 * weight s1), s1))"

fun get_spent_calories :: "training \<Rightarrow> real outcome" where
  "get_spent_calories (Training a d w) = Training_get_spent_calories (Training a d w)"
| "get_spent_calories (Running a d w) = Running_get_spent_calories (Running a d w)"
| "get_spent_calories (SportsWalking a d w h) =
     SportsWalking_get_spent_calories (SportsWalking a d w h)"
| "get_spent_calories (Swimming a d w lp cp) =
     Swimming_get_spent_calories (Swimming a d w lp cp)"

subsection \<open>Summary of a training\<close>

definition show_training_info :: "training \<Rightarrow> InfoMessage outcome" where
  "show_training_info self =
     (let name = class_name self; d = duration self in
      case get_distance self of
        (Inl e, s1) \<Rightarrow> (Inl e, s1)
      | (Inr km, s1) \<Rightarrow>
          (case get_mean_speed s1 of
             (Inl e, s2) \<Rightarrow> (Inl e, s2)
           | (Inr sp, s2) \<Rightarrow>
               (case get_spent_calories s2 of
                  (Inl e, s3) \<Rightarrow> (Inl e, s3)
                | (Inr cal, s3) \<Rightarrow>
                    (Inr \<lparr>training_type = name, info_duration = d, distance = km,
                          speed = sp, calories = cal, MESSAGE = MESSAGE_default\<rparr>, s3))))"

section \<open>read_package\<close>

text \<open>
  \<^verbatim>\<open>workout_types[workout_type](*data)\<close> calls a class with the elements of \<^verbatim>\<open>data\<close> as
  positional arguments. The constructors take no default or variadic parameters, so a
  list of any other length than the parameter list raises \<^verbatim>\<open>TypeError\<close>: with too many
  arguments the interpreter reports the number of parameters and of arguments (each
  counted with \<^verbatim>\<open>self\<close>), with too few the names of the parameters left unbound.
  \<^verbatim>\<open>Running\<close> inherits the constructor of \<^verbatim>\<open>Training\<close>. The elements of \<^verbatim>\<open>data\<close> are
  integers (\<^verbatim>\<open>data: list[int]\<close>) and are stored as given.
\<close>

definition arity_error :: "string list \<Rightarrow> 'a list \<Rightarrow> py_error" where
  "arity_error params args =
     (if length params < length args
      then TypeError_too_many (Suc (length params)) (Suc (length args))
      else TypeError_missing (drop (length args) params))"

fun new_Running :: "int list \<Rightarrow> py_error + training" where
  "new_Running [a, d, w] = Inr (Running a (of_int d) (of_int w))"
| "new_Running args = Inl (arity_error [''action'', ''duration'', ''weight''] args)"

fun new_SportsWalking :: "int list \<Rightarrow> py_error + training" where
  "new_SportsWalking [a, d, w, h] = Inr (SportsWalking a (of_int d) (of_int w) (of_int h))"
| "new_SportsWalking args =
     Inl (arity_error [''action'', ''duration'', ''weight'', ''height''] args)"

fun new_Swimming :: "int list \<Rightarrow> py_error + training" where
  "new_Swimming [a, d, w, lp, cp] = Inr (Swimming a (of_int d) (of_int w) lp cp)"
| "new_Swimming args =
     Inl (arity_error [''action'', ''duration'', ''weight'', ''length_pool'', ''count_pool''] args)"

definition workout_types :: "pystr \<rightharpoonup> (int list \<Rightarrow> py_error + training)" where
  "workout_types =
     map_of [(ascii ''SWM'', new_Swimming), (ascii ''RUN'', new_Running),
             (ascii ''WLK'', new_SportsWalking)]"

text \<open>
  The body of \<^verbatim>\<open>read_package\<close> is a \<^verbatim>\<open>try\<close> whose handler catches \<^verbatim>\<open>ValueError\<close> only: the
  handler prints a line (\<open>NO_MATCH\<close>, in transliteration
  \<^verbatim>\<open>V spiske net podkhodyashchego znacheniya\<close>) and the function then returns \<^verbatim>\<open>None\<close>, as
  it does when the type code is not a key of the dictionary. Any other exception leaves
  the function. The result is paired with the lines printed.
\<close>

definition NO_MATCH :: pystr where
  "NO_MATCH = [1042, 32, 1089, 1087, 1080, 1089, 1082, 1077, 32, 1085, 1077, 1090, 32, 1087,
     1086, 1076, 1093, 1086, 1076, 1103, 1097, 1077, 1075, 1086, 32, 1079, 1085, 1072, 1095,
     1077, 1085, 1080, 1103]"

definition read_package :: "pystr \<Rightarrow> int list \<Rightarrow> (py_error + training option) \<times> pystr list" where
  "read_package workout_type data =
     (case workout_types workout_type of
        None \<Rightarrow> (Inr None, [])
      | Some cls \<Rightarrow>
          (case cls data of
             Inr obj \<Rightarrow> (Inr (Some obj), [])
           | Inl e \<Rightarrow> if e = ValueError then (Inr None, [NO_MATCH]) else (Inl e, [])))"

section \<open>Rounding to double precision\<close>

text \<open>
  The value of \<open>binary64\<close> at a number whose binade and rounded significand are known.
\<close>

lemma find_upto_first:
  assumes "l \<le> e" and "e \<le> u" and "P e" and "\<And>k. l \<le> k \<Longrightarrow> k < e \<Longrightarrow> \<not> P k"
  shows "find P [l..u] = Some e"
proof -
  let ?i = "nat (e - l)"
  have len: "?i < length [l..u]"
    using assms(1,2) by simp
  have nth: "[l..u] ! k = l + int k" if "k \<le> ?i" for k
    using that assms(1,2) by (intro nth_upto) linarith
  have here: "[l..u] ! ?i = e"
    using nth [of ?i] assms(1) by simp
  have before: "\<not> P ([l..u] ! j)" if "j < ?i" for j
  proof -
    from that have "[l..u] ! j = l + int j"
      using nth [of j] by simp
    moreover from that have "l \<le> l + int j" "l + int j < e"
      by linarith+
    ultimately show ?thesis
      using assms(4) by simp
  qed
  show ?thesis
    unfolding find_Some_iff
    using len here before assms(3) by (intro exI [of _ ?i]) auto
qed

lemma exponent64_eq:
  assumes "- 1022 \<le> e" and "e \<le> 1023"
    and lo: "e = - 1022 \<or> 2 powi e \<le> \<bar>x\<bar>" and hi: "\<bar>x\<bar> < 2 powi (e + 1)"
  shows "exponent64 x = e"
proof -
  have "\<not> \<bar>x\<bar> < 2 powi (k + 1)" if "- 1022 \<le> k" "k < e" for k
  proof -
    from that have "e \<noteq> - 1022"
      by linarith
    with lo have "2 powi e \<le> \<bar>x\<bar>"
      by simp
    moreover from that have "(2::real) powi (k + 1) \<le> 2 powi e"
      by (intro power_int_increasing) simp_all
    ultimately show ?thesis
      by linarith
  qed
  with assms(1,2) hi have "find (\<lambda>e. \<bar>x\<bar> < 2 powi (e + 1)) [- 1022..1023] = Some e"
    by (intro find_upto_first) simp_all
  then show ?thesis
    unfolding exponent64_def by (simp only: option.case)
qed

lemma round_half_even_eq:
  assumes "\<bar>y - of_int n\<bar> < 1 / 2"
  shows "round_half_even y = n"
proof -
  have "of_int \<lfloor>y\<rfloor> \<le> y" "y < of_int \<lfloor>y\<rfloor> + 1"
    by linarith+
  with assms have "\<lfloor>y\<rfloor> = n \<and> y - of_int \<lfloor>y\<rfloor> < 1 / 2 \<or> \<lfloor>y\<rfloor> = n - 1 \<and> 1 / 2 < y - of_int \<lfloor>y\<rfloor>"
    by (cases "\<lfloor>y\<rfloor> = n"; cases "\<lfloor>y\<rfloor> = n - 1") linarith+
  then show ?thesis
    by (auto simp add: round_half_even_def Let_def)
qed

lemma binary64_eqI:
  assumes "- 1022 \<le> e" and "e \<le> 1023"
    and "2 powi e \<le> \<bar>x\<bar>" and "\<bar>x\<bar> < 2 powi (e + 1)"
    and "\<bar>x / 2 powi (e - 52) - of_int n\<bar> < 1 / 2"
  shows "binary64 x = of_int n * 2 powi (e - 52)"
proof -
  have "exponent64 x = e"
    using assms(1-4) by (intro exponent64_eq) simp_all
  with round_half_even_eq [OF assms(5)] show ?thesis
    by (simp add: binary64_def)
qed

lemma binary64_1000: "binary64 1000 = 1000"
  using binary64_eqI [of 9 1000 8796093022208000] by simp


section \<open>Distance, speed and calories\<close>

lemmas method_defs =
  get_distance_def Training_get_mean_speed_def Swimming_get_mean_speed_def
  Training_get_spent_calories_def Running_get_spent_calories_def
  SportsWalking_get_spent_calories_def Swimming_get_spent_calories_def
  truediv_def M_IN_KM_def MINUTES_IN_HOUR_def
  COEFF_CALORIE_FOR_RUN_1_def COEFF_CALORIE_FOR_RUN_2_def
  COEFF_CALORIE_FOR_WALK_1_def COEFF_CALORIE_FOR_WALK_2_def
  COEFF_CALORIE_FOR_SWIM_1_def COEFF_CALORIE_FOR_SWIM_2_def

text \<open>
  C1. For every workout variant, \<^verbatim>\<open>get_distance()\<close> returns
  \<open>action * step_length / 1000\<close> kilometres, where the step length is 0.65 for Running and
  SportsWalking (inherited from the base class) and 1.38 for Swimming.
\<close>

theorem get_distance_formula:
  "fst (get_distance (Running a d w)) = Inr (of_int a * (65 / 100) / 1000) \<and>
   fst (get_distance (SportsWalking a d w h)) = Inr (of_int a * (65 / 100) / 1000) \<and>
   fst (get_distance (Swimming a d w lp cp)) = Inr (of_int a * (138 / 100) / 1000)"
  by (simp add: get_distance_def M_IN_KM_def)

text \<open>
  C2. For every Swimming instance with \<open>duration > 0\<close>, \<^verbatim>\<open>get_mean_speed()\<close> returns
  \<open>length_pool * count_pool / 1000 / duration\<close>, and the result does not depend on
  \<^verbatim>\<open>action\<close>: two instances that differ only there have the same mean speed.
\<close>

theorem swimming_mean_speed:
  "0 < d \<Longrightarrow>
   fst (get_mean_speed (Swimming a d w lp cp)) = Inr (of_int lp * of_int cp / 1000 / d) \<and>
   fst (get_mean_speed (Swimming a' d w lp cp)) = fst (get_mean_speed (Swimming a d w lp cp))"
  by (simp add: Swimming_get_mean_speed_def truediv_def M_IN_KM_def)

text \<open>
  At the sample package \<^verbatim>\<open>('SWM', [720, 1, 80, 25, 40])\<close> the mean speed is 1 km/h.
\<close>

theorem swimming_mean_speed_witness:
  "(0::real) < 1 \<and>
   fst (get_mean_speed (Swimming 720 1 80 25 40)) = Inr 1 \<and>
   fst (get_mean_speed (Swimming 0 1 80 25 40)) = fst (get_mean_speed (Swimming 720 1 80 25 40))"
  using swimming_mean_speed [of 1 720 80 25 40 0] by simp



section \<open>The Running scenario\<close>

text \<open>
  C4, as stated, gives 730.125 for the calories of \<^verbatim>\<open>('RUN', [15000, 1, 75])\<close>. The
  Running formula yields 699.75 there, more than 30 away.
\<close>

theorem run_scenario_counterexample:
  "fst (read_package (ascii ''RUN'') [15000, 1, 75]) = Inr (Some (Running 15000 1 75)) \<and>
   fst (get_spent_calories (Running 15000 1 75)) = Inr (69975 / 100) \<and>
   30 < \<bar>69975 / 100 - 730125 / 1000 :: real\<bar>"
  by (simp add: read_package_def workout_types_def ascii_def method_defs)

text \<open>
  C4, amended. For the input code \<^verbatim>\<open>'RUN'\<close> with data \<^verbatim>\<open>[15000, 1, 75]\<close> the constructed
  workout's \<^verbatim>\<open>get_distance()\<close> returns 9.75 km, \<^verbatim>\<open>get_mean_speed()\<close> returns 9.75 km/h
  and \<^verbatim>\<open>get_spent_calories()\<close> returns 699.75, the value of the Running formula
  \<open>(18 * mean_speed - 20) * weight / 1000 * (duration * 60)\<close>.
\<close>

theorem run_scenario:
  "fst (read_package (ascii ''RUN'') [15000, 1, 75]) = Inr (Some (Running 15000 1 75)) \<and>
   fst (get_distance (Running 15000 1 75)) = Inr (975 / 100) \<and>
   fst (get_mean_speed (Running 15000 1 75)) = Inr (975 / 100) \<and>
   fst (get_spent_calories (Running 15000 1 75)) = Inr ((18 * (975 / 100) - 20) * 75 / 1000 * (1 * 60)) \<and>
   (18 * (975 / 100) - 20) * 75 / 1000 * (1 * 60) = (69975 / 100 :: real)"
  by (simp add: read_package_def workout_types_def ascii_def method_defs)

text \<open>
  C10. Whenever a Running instance with \<open>duration > 0\<close> and \<open>weight > 0\<close> has a mean speed
  below \<open>20 / 18\<close> km/h, \<^verbatim>\<open>get_spent_calories()\<close> returns a strictly negative value:
  the result has no lower bound of zero.
\<close>

theorem running_calories_negative:
  "0 < d \<Longrightarrow> 0 < w \<Longrightarrow> fst (get_mean_speed (Running a d w)) = Inr v \<Longrightarrow> v < 20 / 18 \<Longrightarrow>
   fst (get_spent_calories (Running a d w)) = Inr ((18 * v - 20) * w / 1000 * (d * 60)) \<and>
   (18 * v - 20) * w / 1000 * (d * 60) < 0"
proof -
  assume d: "0 < d" and w: "0 < w" and v: "fst (get_mean_speed (Running a d w)) = Inr v"
    and slow: "v < 20 / 18"
  from slow have "18 * v - 20 < 0" by simp
  with w have "(18 * v - 20) * w < 0" by (simp add: mult_neg_pos)
  then have "(18 * v - 20) * w / 1000 < 0" by simp
  moreover from d have "0 < d * 60" by simp
  ultimately have neg: "(18 * v - 20) * w / 1000 * (d * 60) < 0" by (rule mult_neg_pos)
  from v d have "fst (get_spent_calories (Running a d w)) = Inr ((18 * v - 20) * w / 1000 * (d * 60))"
    by (simp add: method_defs split: if_splits)
  with neg show ?thesis by simp
qed

text \<open>
  Such an input exists: \<open>action = 1000\<close>, \<open>duration = 1\<close>, \<open>weight = 75\<close> gives a mean
  speed of 0.65 km/h and -37.35 calories.
\<close>

theorem running_calories_negative_witness:
  "(0::real) < 1 \<and> (0::real) < 75 \<and> fst (get_mean_speed (Running 1000 1 75)) = Inr (65 / 100) \<and>
   (65 / 100 :: real) < 20 / 18 \<and>
   fst (get_spent_calories (Running 1000 1 75)) = Inr (- (3735 / 100)) \<and> (- (3735 / 100) :: real) < 0"
proof -
  have v: "fst (get_mean_speed (Running 1000 1 75)) = Inr (65 / 100)"
    by (simp add: method_defs)
  show ?thesis
    using v running_calories_negative [of 1 75 1000 "65 / 100"] by simp
qed

section \<open>The base class has no calorie formula\<close>

text \<open>
  C7. \<^verbatim>\<open>get_spent_calories()\<close> on an instance of the base class \<^verbatim>\<open>Training\<close> always
  raises \<^verbatim>\<open>NotImplementedError\<close>: the base class has no default calorie formula.
\<close>

theorem base_get_spent_calories_raises:
  "fst (get_spent_calories (Training a d w)) = Inl NotImplementedError"
  by (simp add: Training_get_spent_calories_def)

section \<open>Dispatch\<close>








text \<open>
  C6. For a type code outside \<^verbatim>\<open>{'SWM', 'RUN', 'WLK'}\<close> and any argument list,
  \<^verbatim>\<open>read_package\<close> returns \<^verbatim>\<open>None\<close>: no workout, no exception, nothing printed.
\<close>

theorem read_package_unknown_code:
  "workout_type \<notin> {ascii ''SWM'', ascii ''RUN'', ascii ''WLK''} \<Longrightarrow>
   read_package workout_type data = (Inr None, [])"
  by (simp add: read_package_def workout_types_def)

text \<open>
  The type code \<^verbatim>\<open>'XYZ'\<close>.
\<close>

theorem read_package_unknown_code_witness:
  "ascii ''XYZ'' \<notin> {ascii ''SWM'', ascii ''RUN'', ascii ''WLK''} \<and>
   read_package (ascii ''XYZ'') [1, 2, 3] = (Inr None, [])"
proof -
  have "ascii ''XYZ'' \<notin> {ascii ''SWM'', ascii ''RUN'', ascii ''WLK''}"
    by (simp add: ascii_def)
  then show ?thesis
    using read_package_unknown_code [of "ascii ''XYZ''" "[1, 2, 3]"] by simp
qed

section \<open>Queries do not change the instance\<close>

lemma get_distance_instance: "snd (get_distance self) = self"
  by (simp add: get_distance_def)

lemma get_mean_speed_instance: "snd (get_mean_speed self) = self"
  by (cases self) (simp_all add: Training_get_mean_speed_def Swimming_get_mean_speed_def)

lemma get_spent_calories_instance: "snd (get_spent_calories self) = self"
proof (cases "get_mean_speed self")
  case (Pair r s1)
  with get_mean_speed_instance [of self] have s1: "s1 = self"
    by simp
  show ?thesis
  proof (cases self)
    case (Training a d w)
    then show ?thesis by (simp add: Training_get_spent_calories_def)
  next
    case (Running a d w)
    with Pair s1 show ?thesis
      by (cases r) (simp_all add: Running_get_spent_calories_def)
  next
    case (SportsWalking a d w h)
    then show ?thesis
      by (simp add: SportsWalking_get_spent_calories_def Training_get_mean_speed_double_def
          fl_truediv_def fl_floordiv_def binary64_1000 M_IN_KM_def)
  next
    case (Swimming a d w lp cp)
    with Pair s1 show ?thesis
      by (cases r) (simp_all add: Swimming_get_spent_calories_def)
  qed
qed

lemma show_training_info_instance: "snd (show_training_info self) = self"
proof -
  obtain r1 where 1: "get_distance self = (r1, self)"
    using get_distance_instance [of self] by (cases "get_distance self") simp
  obtain r2 where 2: "get_mean_speed self = (r2, self)"
    using get_mean_speed_instance [of self] by (cases "get_mean_speed self") simp
  obtain r3 where 3: "get_spent_calories self = (r3, self)"
    using get_spent_calories_instance [of self] by (cases "get_spent_calories self") simp
  show ?thesis
    by (cases r1; cases r2; cases r3) (simp_all add: show_training_info_def 1 2 3)
qed

text \<open>
  C9. Each query (\<^verbatim>\<open>get_distance\<close>, \<^verbatim>\<open>get_mean_speed\<close>, \<^verbatim>\<open>get_spent_calories\<close>,
  \<^verbatim>\<open>show_training_info\<close>) on an instance of any class leaves the instance, that is every
  one of its attributes, as it was, whether it returns or raises; and a second call on
  the instance it leaves gives the same outcome as the first.
\<close>

theorem queries_leave_instance_unchanged:
  "snd (get_distance self) = self \<and>
   snd (get_mean_speed self) = self \<and>
   snd (get_spent_calories self) = self \<and>
   snd (show_training_info self) = self \<and>
   fst (get_distance (snd (get_distance self))) = fst (get_distance self) \<and>
   fst (get_mean_speed (snd (get_mean_speed self))) = fst (get_mean_speed self) \<and>
   fst (get_spent_calories (snd (get_spent_calories self))) = fst (get_spent_calories self) \<and>
   fst (show_training_info (snd (show_training_info self))) = fst (show_training_info self)"
  by (simp add: get_distance_instance get_mean_speed_instance get_spent_calories_instance
      show_training_info_instance)

section \<open>The message\<close>

subsection \<open>Fixed-point rendering\<close>

lemma round_half_even_error: "\<bar>of_int (round_half_even y) - y\<bar> \<le> 1 / 2"
proof -
  have "of_int \<lfloor>y\<rfloor> \<le> y" "y < of_int \<lfloor>y\<rfloor> + 1"
    by linarith+
  then show ?thesis
    by (auto simp add: round_half_even_def Let_def)
qed

lemma round_half_even_nonneg: "0 \<le> y \<Longrightarrow> 0 \<le> round_half_even y"
proof -
  assume "0 \<le> y"
  then have "0 \<le> \<lfloor>y\<rfloor>" by simp
  then show ?thesis
    by (auto simp add: round_half_even_def Let_def)
qed

lemma digits_value_snoc: "digits_value (ds @ [c]) = 10 * digits_value ds + (c - 48)"
  by (simp add: digits_value_def)

lemma digits_value_dec_digits: "digits_value (dec_digits n) = n"
proof (induction n rule: dec_digits.induct)
  case (1 n)
  show ?case
  proof (cases "n < 10")
    case True
    then show ?thesis
      by (simp add: dec_digits.simps [of n] digits_value_def)
  next
    case False
    with 1 have "digits_value (dec_digits (n div 10)) = n div 10"
      by simp
    with False show ?thesis
      by (simp add: dec_digits.simps [of n] digits_value_snoc)
  qed
qed

lemma is_digit_dec_digits: "list_all is_digit (dec_digits n)"
proof (induction n rule: dec_digits.induct)
  case (1 n)
  show ?case
  proof (cases "n < 10")
    case True
    then show ?thesis
      by (simp add: dec_digits.simps [of n] is_digit_def)
  next
    case False
    with 1 have "list_all is_digit (dec_digits (n div 10))"
      by simp
    moreover have "n mod 10 < 10" by simp
    then have "is_digit (48 + n mod 10)"
      unfolding is_digit_def by linarith
    ultimately show ?thesis
      using False by (simp add: dec_digits.simps [of n])
  qed
qed

lemma length_dec_digits: "n < 10 ^ Suc k \<Longrightarrow> length (dec_digits n) \<le> Suc k"
proof (induction k arbitrary: n)
  case 0
  then show ?case by (simp add: dec_digits.simps [of n])
next
  case (Suc k)
  show ?case
  proof (cases "n < 10")
    case True
    then show ?thesis by (simp add: dec_digits.simps [of n])
  next
    case False
    from Suc.prems have "n div 10 < 10 ^ Suc k"
      by (simp add: less_mult_imp_div_less)
    then have "length (dec_digits (n div 10)) \<le> Suc k"
      by (rule Suc.IH)
    with False show ?thesis by (simp add: dec_digits.simps [of n])
  qed
qed

lemma digits_value_zeros: "digits_value (replicate k 48 @ ds) = digits_value ds"
proof -
  have "foldl (\<lambda>n c. 10 * n + (c - 48)) 0 (replicate k 48) = (0::nat)"
    by (induction k) simp_all
  then show ?thesis
    by (simp add: digits_value_def)
qed

lemma zero_pad_fraction:
  assumes "r < 10 ^ Suc k"
  shows "length (zero_pad (Suc k) (dec_digits r)) = Suc k"
    and "list_all is_digit (zero_pad (Suc k) (dec_digits r))"
    and "digits_value (zero_pad (Suc k) (dec_digits r)) = r"
proof -
  from assms have "length (dec_digits r) \<le> Suc k"
    by (rule length_dec_digits)
  then show "length (zero_pad (Suc k) (dec_digits r)) = Suc k"
    by (simp add: zero_pad_def)
  have "list_all is_digit (replicate m 48)" for m
    by (induction m) (simp_all add: is_digit_def)
  then show "list_all is_digit (zero_pad (Suc k) (dec_digits r))"
    by (simp add: zero_pad_def is_digit_dec_digits)
  show "digits_value (zero_pad (Suc k) (dec_digits r)) = r"
    by (simp add: zero_pad_def digits_value_zeros digits_value_dec_digits)
qed

lemma format_f_3_rounds:
  "\<exists>i fr. format_f 3 x = (if x < 0 then [45] else []) @ dec_digits i @ 46 # fr \<and>
     length fr = 3 \<and> list_all is_digit fr \<and>
     \<bar>real i + real (digits_value fr) / 1000 - \<bar>x\<bar>\<bar> \<le> 1 / 2000"
proof -
  define z where "z = round_half_even (\<bar>x\<bar> * 1000)"
  define q where "q = nat z"
  define fr where "fr = zero_pad 3 (dec_digits (q mod 1000))"
  have "0 \<le> z"
    unfolding z_def by (rule round_half_even_nonneg) simp
  then have q: "real q = of_int z"
    by (simp add: q_def)
  have "q mod 1000 < 10 ^ Suc 2"
    by simp
  from zero_pad_fraction [OF this]
  have fr: "length fr = 3" "list_all is_digit fr" "digits_value fr = q mod 1000"
    by (simp_all add: fr_def numeral_3_eq_3)
  have shape: "format_f 3 x = (if x < 0 then [45] else []) @ dec_digits (q div 1000) @ 46 # fr"
    by (simp add: format_f_def Let_def q_def z_def fr_def)
  have "real (q div 1000) * 1000 + real (q mod 1000) = real q"
    by (metis div_mult_mod_eq of_nat_add of_nat_mult of_nat_numeral)
  then have split: "real (q div 1000) + real (q mod 1000) / 1000 = real q / 1000"
    by simp
  have "\<bar>of_int z - \<bar>x\<bar> * 1000\<bar> \<le> 1 / 2"
    unfolding z_def by (rule round_half_even_error)
  then have "\<bar>real q / 1000 - \<bar>x\<bar>\<bar> \<le> 1 / 2000"
    unfolding q by linarith
  then have "\<bar>real (q div 1000) + real (digits_value fr) / 1000 - \<bar>x\<bar>\<bar> \<le> 1 / 2000"
    unfolding fr(3) split .
  with shape fr(1,2) show ?thesis
    by blast
qed

subsection \<open>Scanning a template\<close>

lemma prepend_append: "prepend (s @ t) r = prepend s (prepend t r)"
  by (cases r) simp_all

lemma prepend_Nil: "prepend [] r = r"
  by (cases r) simp_all

lemma format_go_literal:
  "list_all plain lit \<Longrightarrow>
   format_go None (lit @ rest) kwargs = prepend lit (format_go None rest kwargs)"
proof (induction lit)
  case Nil
  show ?case by (simp add: prepend_Nil)
next
  case (Cons c lit)
  then have "c \<noteq> 123" "c \<noteq> 125"
    and IH: "format_go None (lit @ rest) kwargs = prepend lit (format_go None rest kwargs)"
    by (simp_all add: plain_def)
  then show ?case
    using prepend_append [of "[c]" lit] by simp
qed

lemma format_go_in_field:
  "list_all plain f \<Longrightarrow>
   format_go (Some acc) (f @ 125 # rest) kwargs =
     (case format_field (acc @ f) kwargs of
        Inl e \<Rightarrow> Inl e
      | Inr s \<Rightarrow> prepend s (format_go None rest kwargs))"
  by (induction f arbitrary: acc) (simp_all add: plain_def)

lemma format_go_field:
  assumes "list_all plain f" and "f \<noteq> []"
  shows "format_go None (123 # f @ 125 # rest) kwargs =
     (case format_field f kwargs of
        Inl e \<Rightarrow> Inl e
      | Inr s \<Rightarrow> prepend s (format_go None rest kwargs))"
proof -
  obtain c g where f: "f = c # g"
    using assms(2) by (cases f) auto
  with assms(1) have "c \<noteq> 123"
    by (simp add: plain_def)
  then have "format_go None (123 # f @ 125 # rest) kwargs =
             format_go (Some []) (f @ 125 # rest) kwargs"
    by (simp add: f)
  then show ?thesis
    using format_go_in_field [OF assms(1), of "[]" rest kwargs] by simp
qed

lemma format_go_literal_end:
  "list_all plain lit \<Longrightarrow> format_go None lit kwargs = Inr lit"
  using format_go_literal [of lit "[]" kwargs] by simp

lemma precision_3f: "precision_f (ascii ''.3f'') = Some 3"
  by (simp add: precision_f_def ascii_def is_digit_def digits_value_def)

lemma get_message_MESSAGE_default:
  assumes "MESSAGE m = MESSAGE_default"
  shows "get_message m = Inr (
     [1058, 1080, 1087] @ ascii '' '' @ [1090, 1088, 1077, 1085, 1080, 1088, 1086, 1074, 1082, 1080]
       @ ascii '': '' @ training_type m @ ascii ''; ''
     @ [1044, 1083, 1080, 1090, 1077, 1083, 1100, 1085, 1086, 1089, 1090, 1100]
       @ ascii '': '' @ format_f 3 (info_duration m) @ ascii '' '' @ [1095] @ ascii ''.; ''
     @ [1044, 1080, 1089, 1090, 1072, 1085, 1094, 1080, 1103]
       @ ascii '': '' @ format_f 3 (distance m) @ ascii '' '' @ [1082, 1084] @ ascii ''; ''
     @ [1057, 1088] @ ascii ''. '' @ [1089, 1082, 1086, 1088, 1086, 1089, 1090, 1100]
       @ ascii '': '' @ format_f 3 (speed m) @ ascii '' '' @ [1082, 1084] @ ascii ''/'' @ [1095] @ ascii ''; ''
     @ [1055, 1086, 1090, 1088, 1072, 1095, 1077, 1085, 1086] @ ascii '' ''
       @ [1082, 1082, 1072, 1083] @ ascii '': '' @ format_f 3 (calories m) @ ascii ''.'')"
proof -
  define L0 :: pystr where "L0 = [1058, 1080, 1087] @ ascii '' ''
    @ [1090, 1088, 1077, 1085, 1080, 1088, 1086, 1074, 1082, 1080] @ ascii '': ''"
  define L1 :: pystr where "L1 = ascii ''; ''
    @ [1044, 1083, 1080, 1090, 1077, 1083, 1100, 1085, 1086, 1089, 1090, 1100] @ ascii '': ''"
  define L2 :: pystr where "L2 = ascii '' '' @ [1095] @ ascii ''.; ''
    @ [1044, 1080, 1089, 1090, 1072, 1085, 1094, 1080, 1103] @ ascii '': ''"
  define L3 :: pystr where "L3 = ascii '' '' @ [1082, 1084] @ ascii ''; '' @ [1057, 1088]
    @ ascii ''. '' @ [1089, 1082, 1086, 1088, 1086, 1089, 1090, 1100] @ ascii '': ''"
  define L4 :: pystr where "L4 = ascii '' '' @ [1082, 1084] @ ascii ''/'' @ [1095] @ ascii ''; ''
    @ [1055, 1086, 1090, 1088, 1072, 1095, 1077, 1085, 1086] @ ascii '' ''
    @ [1082, 1082, 1072, 1083] @ ascii '': ''"
  define L5 :: pystr where "L5 = ascii ''.''"
  define F0 where "F0 = ascii ''training_type''"
  define F1 where "F1 = ascii ''duration:.3f''"
  define F2 where "F2 = ascii ''distance:.3f''"
  define F3 where "F3 = ascii ''speed:.3f''"
  define F4 where "F4 = ascii ''calories:.3f''"
  note L = L0_def L1_def L2_def L3_def L4_def L5_def
  note F = F0_def F1_def F2_def F3_def F4_def
  have template: "MESSAGE_default =
      L0 @ 123 # F0 @ 125 # L1 @ 123 # F1 @ 125 # L2 @ 123 # F2 @ 125 # L3 @ 123 # F3 @ 125 #
      L4 @ 123 # F4 @ 125 # L5"
    by (simp add: MESSAGE_default_def L F ascii_def)
  have lit: "list_all plain L0" "list_all plain L1" "list_all plain L2" "list_all plain L3"
    "list_all plain L4" "list_all plain L5"
    by (simp_all add: L ascii_def plain_def)
  have fld: "list_all plain F0" "list_all plain F1" "list_all plain F2" "list_all plain F3"
    "list_all plain F4" "F0 \<noteq> []" "F1 \<noteq> []" "F2 \<noteq> []" "F3 \<noteq> []" "F4 \<noteq> []"
    by (simp_all add: F ascii_def plain_def)
  have v0: "format_field F0 (asdict m) = Inr (training_type m)"
    by (simp add: F0_def format_field_def asdict_def ascii_def is_name_char_def is_digit_def)
  have v1: "format_field F1 (asdict m) = Inr (format_f 3 (info_duration m))"
    using precision_3f
    by (simp add: F1_def format_field_def asdict_def ascii_def is_name_char_def is_digit_def)
  have v2: "format_field F2 (asdict m) = Inr (format_f 3 (distance m))"
    using precision_3f
    by (simp add: F2_def format_field_def asdict_def ascii_def is_name_char_def is_digit_def)
  have v3: "format_field F3 (asdict m) = Inr (format_f 3 (speed m))"
    using precision_3f
    by (simp add: F3_def format_field_def asdict_def ascii_def is_name_char_def is_digit_def)
  have v4: "format_field F4 (asdict m) = Inr (format_f 3 (calories m))"
    using precision_3f
    by (simp add: F4_def format_field_def asdict_def ascii_def is_name_char_def is_digit_def)
  have "get_message m = Inr (L0 @ training_type m @ L1 @ format_f 3 (info_duration m) @ L2
      @ format_f 3 (distance m) @ L3 @ format_f 3 (speed m) @ L4 @ format_f 3 (calories m) @ L5)"
    unfolding get_message_def str_format_def assms template
    by (simp add: format_go_literal format_go_field format_go_literal_end lit fld v0 v1 v2 v3 v4
          del: format_go.simps)
  then show ?thesis
    by (simp add: L)
qed


lemma round_half_even_examples:
  "round_half_even 1000 = 1000" "round_half_even 9750 = 9750" "round_half_even 699750 = 699750"
  by (simp_all add: round_half_even_def)
lemma dec_digits_examples:
  "dec_digits 0 = [48]" "dec_digits (Suc 0) = [49]" "dec_digits 9 = [57]"
  "dec_digits 750 = [55, 53, 48]" "dec_digits 699 = [54, 57, 57]"
  by (simp_all add: dec_digits.simps)
lemma format_f_3_examples:
  "format_f 3 1 = ascii ''1.000''"
  "format_f 3 (39 / 4) = ascii ''9.750''"
  "format_f 3 (2799 / 4) = ascii ''699.750''"
proof -
  have pad: "replicate 2 (48::nat) = [48, 48]"
    by (simp add: numeral_2_eq_2)
  show "format_f 3 1 = ascii ''1.000''"
    by (simp add: format_f_def round_half_even_examples dec_digits_examples zero_pad_def
        ascii_def pad)
  show "format_f 3 (39 / 4) = ascii ''9.750''"
    by (simp add: format_f_def round_half_even_examples dec_digits_examples zero_pad_def
        ascii_def)
  show "format_f 3 (2799 / 4) = ascii ''699.750''"
    by (simp add: format_f_def round_half_even_examples dec_digits_examples zero_pad_def
        ascii_def)
qed

text \<open>
  C8, as stated, gives the line in English. The template of the code is Russian, so the
  summary of the sample package \<^verbatim>\<open>('RUN', [15000, 1, 75])\<close> is not rendered as the English
  line; and \<^verbatim>\<open>MESSAGE\<close> is a field of the dataclass, so an InfoMessage built with another
  template is rendered by that one.
\<close>

theorem get_message_english_counterexample:
  "get_message \<lparr>training_type = ascii ''Running'', info_duration = 1, distance = 975 / 100,
        speed = 975 / 100, calories = 69975 / 100, MESSAGE = MESSAGE_default\<rparr> \<noteq>
     Inr (ascii ''Training type: Running; Duration: 1.000 h.; Distance: 9.750 km; Mean speed: 9.750 km/h; Calories burned: 699.750.'') \<and>
   get_message \<lparr>training_type = ascii ''Running'', info_duration = 1, distance = 975 / 100,
        speed = 975 / 100, calories = 69975 / 100, MESSAGE = ascii ''n/a''\<rparr> = Inr (ascii ''n/a'')"
proof -
  have "get_message \<lparr>training_type = ascii ''Running'', info_duration = 1, distance = 975 / 100,
        speed = 975 / 100, calories = 69975 / 100, MESSAGE = MESSAGE_default\<rparr> \<noteq>
     Inr (ascii ''Training type: Running; Duration: 1.000 h.; Distance: 9.750 km; Mean speed: 9.750 km/h; Calories burned: 699.750.'')"
    using get_message_MESSAGE_default [of "\<lparr>training_type = ascii ''Running'', info_duration = 1, distance = 975 / 100,
        speed = 975 / 100, calories = 69975 / 100, MESSAGE = MESSAGE_default\<rparr>"]
    by (simp add: ascii_def del: append_assoc)
  moreover have "get_message \<lparr>training_type = ascii ''Running'', info_duration = 1, distance = 975 / 100,
        speed = 975 / 100, calories = 69975 / 100, MESSAGE = ascii ''n/a''\<rparr> = Inr (ascii ''n/a'')"
    by (simp add: get_message_def str_format_def ascii_def)
  ultimately show ?thesis
    by simp
qed

text \<open>
  C8, amended. For every InfoMessage whose field \<^verbatim>\<open>MESSAGE\<close> has its default value,
  \<^verbatim>\<open>get_message()\<close> returns exactly the line of the Russian template, with the fields in
  the order training type, duration, distance, mean speed, calories, and each numeric
  field in the format \<^verbatim>\<open>.3f\<close>: a sign, the integer digits, a point and three digits, whose
  value is within 0.0005 of the field's absolute value.
\<close>

theorem get_message_default_template:
  assumes "MESSAGE m = MESSAGE_default"
  shows "get_message m = Inr (
     [1058, 1080, 1087] @ ascii '' '' @ [1090, 1088, 1077, 1085, 1080, 1088, 1086, 1074, 1082, 1080]
       @ ascii '': '' @ training_type m @ ascii ''; ''
     @ [1044, 1083, 1080, 1090, 1077, 1083, 1100, 1085, 1086, 1089, 1090, 1100]
       @ ascii '': '' @ format_f 3 (info_duration m) @ ascii '' '' @ [1095] @ ascii ''.; ''
     @ [1044, 1080, 1089, 1090, 1072, 1085, 1094, 1080, 1103]
       @ ascii '': '' @ format_f 3 (distance m) @ ascii '' '' @ [1082, 1084] @ ascii ''; ''
     @ [1057, 1088] @ ascii ''. '' @ [1089, 1082, 1086, 1088, 1086, 1089, 1090, 1100]
       @ ascii '': '' @ format_f 3 (speed m) @ ascii '' '' @ [1082, 1084] @ ascii ''/'' @ [1095] @ ascii ''; ''
     @ [1055, 1086, 1090, 1088, 1072, 1095, 1077, 1085, 1086] @ ascii '' ''
       @ [1082, 1082, 1072, 1083] @ ascii '': '' @ format_f 3 (calories m) @ ascii ''.'') \<and>
   (\<forall>x. \<exists>i fr. format_f 3 x = (if x < 0 then [45] else []) @ dec_digits i @ 46 # fr \<and>
      length fr = 3 \<and> list_all is_digit fr \<and>
      \<bar>real i + real (digits_value fr) / 1000 - \<bar>x\<bar>\<bar> \<le> 1 / 2000)"
proof (intro conjI allI)
  show "get_message m = Inr (
     [1058, 1080, 1087] @ ascii '' '' @ [1090, 1088, 1077, 1085, 1080, 1088, 1086, 1074, 1082, 1080]
       @ ascii '': '' @ training_type m @ ascii ''; ''
     @ [1044, 1083, 1080, 1090, 1077, 1083, 1100, 1085, 1086, 1089, 1090, 1100]
       @ ascii '': '' @ format_f 3 (info_duration m) @ ascii '' '' @ [1095] @ ascii ''.; ''
     @ [1044, 1080, 1089, 1090, 1072, 1085, 1094, 1080, 1103]
       @ ascii '': '' @ format_f 3 (distance m) @ ascii '' '' @ [1082, 1084] @ ascii ''; ''
     @ [1057, 1088] @ ascii ''. '' @ [1089, 1082, 1086, 1088, 1086, 1089, 1090, 1100]
       @ ascii '': '' @ format_f 3 (speed m) @ ascii '' '' @ [1082, 1084] @ ascii ''/'' @ [1095] @ ascii ''; ''
     @ [1055, 1086, 1090, 1088, 1072, 1095, 1077, 1085, 1086] @ ascii '' ''
       @ [1082, 1082, 1072, 1083] @ ascii '': '' @ format_f 3 (calories m) @ ascii ''.'')"
    by (rule get_message_MESSAGE_default [OF assms])
next
  fix x
  show "\<exists>i fr. format_f 3 x = (if x < 0 then [45] else []) @ dec_digits i @ 46 # fr \<and>
      length fr = 3 \<and> list_all is_digit fr \<and>
      \<bar>real i + real (digits_value fr) / 1000 - \<bar>x\<bar>\<bar> \<le> 1 / 2000"
    by (rule format_f_3_rounds)
qed

text \<open>
  The summary that \<^verbatim>\<open>show_training_info\<close> builds for the sample package
  \<^verbatim>\<open>('RUN', [15000, 1, 75])\<close> carries the default template and is rendered with the fields
  \<^verbatim>\<open>Running\<close>, \<^verbatim>\<open>1.000\<close>, \<^verbatim>\<open>9.750\<close>, \<^verbatim>\<open>9.750\<close>, \<^verbatim>\<open>699.750\<close>.
\<close>

theorem get_message_default_template_witness:
  "fst (show_training_info (Running 15000 1 75)) = Inr
     \<lparr>training_type = ascii ''Running'', info_duration = 1, distance = 975 / 100,
        speed = 975 / 100, calories = 69975 / 100, MESSAGE = MESSAGE_default\<rparr> \<and>
   MESSAGE \<lparr>training_type = ascii ''Running'', info_duration = 1, distance = 975 / 100,
        speed = 975 / 100, calories = 69975 / 100, MESSAGE = MESSAGE_default\<rparr> = MESSAGE_default \<and>
   get_message \<lparr>training_type = ascii ''Running'', info_duration = 1, distance = 975 / 100,
        speed = 975 / 100, calories = 69975 / 100, MESSAGE = MESSAGE_default\<rparr> = Inr (
     [1058, 1080, 1087] @ ascii '' '' @ [1090, 1088, 1077, 1085, 1080, 1088, 1086, 1074, 1082, 1080]
       @ ascii '': '' @ ascii ''Running'' @ ascii ''; ''
     @ [1044, 1083, 1080, 1090, 1077, 1083, 1100, 1085, 1086, 1089, 1090, 1100]
       @ ascii '': '' @ ascii ''1.000'' @ ascii '' '' @ [1095] @ ascii ''.; ''
     @ [1044, 1080, 1089, 1090, 1072, 1085, 1094, 1080, 1103]
       @ ascii '': '' @ ascii ''9.750'' @ ascii '' '' @ [1082, 1084] @ ascii ''; ''
     @ [1057, 1088] @ ascii ''. '' @ [1089, 1082, 1086, 1088, 1086, 1089, 1090, 1100]
       @ ascii '': '' @ ascii ''9.750'' @ ascii '' '' @ [1082, 1084] @ ascii ''/'' @ [1095] @ ascii ''; ''
     @ [1055, 1086, 1090, 1088, 1072, 1095, 1077, 1085, 1086] @ ascii '' ''
       @ [1082, 1082, 1072, 1083] @ ascii '': '' @ ascii ''699.750'' @ ascii ''.'')"
proof -
  let ?m = "\<lparr>training_type = ascii ''Running'', info_duration = 1, distance = 975 / 100,
        speed = 975 / 100, calories = 69975 / 100, MESSAGE = MESSAGE_default\<rparr>"
  have info: "fst (show_training_info (Running 15000 1 75)) = Inr ?m"
    by (simp add: show_training_info_def method_defs)
  have default: "MESSAGE ?m = MESSAGE_default"
    by simp
  have "get_message ?m = Inr (
     [1058, 1080, 1087] @ ascii '' '' @ [1090, 1088, 1077, 1085, 1080, 1088, 1086, 1074, 1082, 1080]
       @ ascii '': '' @ ascii ''Running'' @ ascii ''; ''
     @ [1044, 1083, 1080, 1090, 1077, 1083, 1100, 1085, 1086, 1089, 1090, 1100]
       @ ascii '': '' @ format_f 3 1 @ ascii '' '' @ [1095] @ ascii ''.; ''
     @ [1044, 1080, 1089, 1090, 1072, 1085, 1094, 1080, 1103]
       @ ascii '': '' @ format_f 3 (39 / 4) @ ascii '' '' @ [1082, 1084] @ ascii ''; ''
     @ [1057, 1088] @ ascii ''. '' @ [1089, 1082, 1086, 1088, 1086, 1089, 1090, 1100]
       @ ascii '': '' @ format_f 3 (39 / 4) @ ascii '' '' @ [1082, 1084] @ ascii ''/'' @ [1095] @ ascii ''; ''
     @ [1055, 1086, 1090, 1088, 1072, 1095, 1077, 1085, 1086] @ ascii '' ''
       @ [1082, 1082, 1072, 1083] @ ascii '': '' @ format_f 3 (2799 / 4) @ ascii ''.'')"
    using get_message_default_template [OF default, THEN conjunct1] by simp
  then have "get_message ?m = Inr (
     [1058, 1080, 1087] @ ascii '' '' @ [1090, 1088, 1077, 1085, 1080, 1088, 1086, 1074, 1082, 1080]
       @ ascii '': '' @ ascii ''Running'' @ ascii ''; ''
     @ [1044, 1083, 1080, 1090, 1077, 1083, 1100, 1085, 1086, 1089, 1090, 1100]
       @ ascii '': '' @ ascii ''1.000'' @ ascii '' '' @ [1095] @ ascii ''.; ''
     @ [1044, 1080, 1089, 1090, 1072, 1085, 1094, 1080, 1103]
       @ ascii '': '' @ ascii ''9.750'' @ ascii '' '' @ [1082, 1084] @ ascii ''; ''
     @ [1057, 1088] @ ascii ''. '' @ [1089, 1082, 1086, 1088, 1086, 1089, 1090, 1100]
       @ ascii '': '' @ ascii ''9.750'' @ ascii '' '' @ [1082, 1084] @ ascii ''/'' @ [1095] @ ascii ''; ''
     @ [1055, 1086, 1090, 1088, 1072, 1095, 1077, 1085, 1086] @ ascii '' ''
       @ [1082, 1082, 1072, 1083] @ ascii '': '' @ ascii ''699.750'' @ ascii ''.'')"
    unfolding format_f_3_examples .
  with info default show ?thesis
    by (intro conjI)
qed

end
